theory Spec2Isabelle
  imports Complex_Main "HOL-Library.AList" "HOL-Library.Sublist"
begin

section \<open>Data model\<close>

text \<open>
  Modelled from the spec: \<^verbatim>\<open>types.ts\<close> is not among the sources. The fields are the ones
  the code reads (\<^verbatim>\<open>lecture.id\<close>, \<^verbatim>\<open>lecture.title\<close>, \<^verbatim>\<open>lecture.credits.startsWith\<close>,
  \<^verbatim>\<open>lecture.major\<close>, \<^verbatim>\<open>lecture.schedule\<close>, \<^verbatim>\<open>lecture.grade\<close>; \<^verbatim>\<open>schedule.day\<close>,
  \<^verbatim>\<open>schedule.range\<close>, \<^verbatim>\<open>schedule.room\<close>, \<^verbatim>\<open>schedule.lecture\<close>). Names that clash with a HOL
  constant carry a prime. JavaScript numbers that hold slot indices, grades and array
  indices are modelled as mathematical integers (doubles are exact on integers below
  \<open>2^53\<close>).
\<close>

record Lecture =
  id' :: string
  title :: string
  credits :: string
  major :: string
  schedule :: string
  grade :: int

text \<open>The result type of \<^verbatim>\<open>parseSchedule\<close>: one session of a lecture.\<close>

record Session =
  day :: string
  range' :: "int list"
  room :: string

text \<open>\<^verbatim>\<open>Schedule\<close> is \<^verbatim>\<open>{ ...session, lecture }\<close>.\<close>

record Schedule = Session +
  lecture :: Lecture

text \<open>
  \<^verbatim>\<open>Record<string, Schedule[]>\<close>: a JavaScript object, as the list of its own properties in
  property order, keys distinct. \<^verbatim>\<open>prev[tableId]\<close> is \<open>map_of prev tableId\<close>, with \<open>None\<close>
  for \<^verbatim>\<open>undefined\<close>; \<^verbatim>\<open>{ ...prev, [k]: v }\<close> is \<open>AList.update k v prev\<close> (an existing key keeps
  its place, a new key goes last); the rest pattern \<^verbatim>\<open>{ [k]: removed, ...rest }\<close> is
  \<open>AList.delete k prev\<close>. The only key the write actions ever add is
  \<^verbatim>\<open>`schedule-${Date.now()}`\<close>, which JavaScript lists after the keys present, as
  \<open>AList.update\<close> does. A key that is no own property reads as \<^verbatim>\<open>undefined\<close> or as a member
  of \<^verbatim>\<open>Object.prototype\<close>; neither can be spread into an array nor has \<^verbatim>\<open>filter\<close> or
  \<^verbatim>\<open>map\<close>, so both behave alike and are the case \<open>None\<close>.
\<close>

type_synonym SchedulesMap = "(string \<times> Schedule list) list"

text \<open>
  Spreading or calling a method of \<^verbatim>\<open>undefined\<close> throws a \<^verbatim>\<open>TypeError\<close> inside the state
  updater; then no new mapping is produced.
\<close>

datatype js_error = TypeError

section \<open>ScheduleContext.tsx: the write actions, as functions of the previous state\<close>

definition addSchedule :: "string \<Rightarrow> Schedule list \<Rightarrow> SchedulesMap \<Rightarrow> js_error + SchedulesMap" where
  "addSchedule tableId schedules prev =
     (case map_of prev tableId of
        None \<Rightarrow> Inl TypeError
      | Some cur \<Rightarrow> Inr (AList.update tableId (cur @ schedules) prev))"

definition removeSchedule :: "string \<Rightarrow> string \<Rightarrow> int \<Rightarrow> SchedulesMap \<Rightarrow> js_error + SchedulesMap" where
  "removeSchedule tableId d time prev =
     (case map_of prev tableId of
        None \<Rightarrow> Inl TypeError
      | Some cur \<Rightarrow>
          Inr (AList.update tableId
                 (filter (\<lambda>s. day s \<noteq> d \<or> time \<notin> set (range' s)) cur) prev))"

definition removeTable :: "string \<Rightarrow> SchedulesMap \<Rightarrow> SchedulesMap" where
  "removeTable tableId prev = AList.delete tableId prev"

definition updateSchedulePosition ::
  "string \<Rightarrow> int \<Rightarrow> string \<Rightarrow> int \<Rightarrow> SchedulesMap \<Rightarrow> js_error + SchedulesMap" where
  "updateSchedulePosition tableId scheduleIndex newDay timeOffset prev =
     (case map_of prev tableId of
        None \<Rightarrow> Inl TypeError
      | Some cur \<Rightarrow>
          Inr (AList.update tableId
                 (map (\<lambda>(index, s).
                         if int index \<noteq> scheduleIndex then s
                         else s\<lparr>day := newDay,
                                range' := map (\<lambda>time. time + timeOffset) (range' s)\<rparr>)
                      (enumerate 0 cur))
                 prev))"

text \<open>
  \<^verbatim>\<open>`schedule-${Date.now()}`\<close>: the clock reading (milliseconds, a natural number) is a
  parameter; \<open>string_of_nat\<close> is its decimal rendering.
\<close>

fun string_of_nat :: "nat \<Rightarrow> string" where
  "string_of_nat n =
     (if n < 10 then [''0123456789'' ! n]
      else string_of_nat (n div 10) @ [''0123456789'' ! (n mod 10)])"

declare string_of_nat.simps [simp del]

definition newTableId :: "nat \<Rightarrow> string" where
  "newTableId now = ''schedule-'' @ string_of_nat now"

definition duplicateTable :: "nat \<Rightarrow> string \<Rightarrow> SchedulesMap \<Rightarrow> js_error + SchedulesMap" where
  "duplicateTable now tableId prev =
     (case map_of prev tableId of
        None \<Rightarrow> Inl TypeError
      | Some cur \<Rightarrow> Inr (AList.update (newTableId now) cur prev))"

text \<open>
  The write-action set of the context value, as data: \<open>apply_write\<close> runs one action on the
  previous mapping, \<open>written_table\<close> is the key whose property the action assigns or
  deletes, and \<open>apply_writes\<close> runs a sequence of actions, stopping at the first exception.
\<close>

datatype write_action =
    AddSchedule string "Schedule list"
  | RemoveSchedule string string int
  | DuplicateTable nat string
  | RemoveTable string
  | UpdateSchedulePosition string int string int

fun apply_write :: "write_action \<Rightarrow> SchedulesMap \<Rightarrow> js_error + SchedulesMap" where
  "apply_write (AddSchedule tableId schedules) prev = addSchedule tableId schedules prev"
| "apply_write (RemoveSchedule tableId d time) prev = removeSchedule tableId d time prev"
| "apply_write (DuplicateTable now tableId) prev = duplicateTable now tableId prev"
| "apply_write (RemoveTable tableId) prev = Inr (removeTable tableId prev)"
| "apply_write (UpdateSchedulePosition tableId scheduleIndex newDay timeOffset) prev =
     updateSchedulePosition tableId scheduleIndex newDay timeOffset prev"

fun written_table :: "write_action \<Rightarrow> string" where
  "written_table (AddSchedule tableId schedules) = tableId"
| "written_table (RemoveSchedule tableId d time) = tableId"
| "written_table (DuplicateTable now tableId) = newTableId now"
| "written_table (RemoveTable tableId) = tableId"
| "written_table (UpdateSchedulePosition tableId scheduleIndex newDay timeOffset) = tableId"

fun apply_writes :: "write_action list \<Rightarrow> SchedulesMap \<Rightarrow> js_error + SchedulesMap" where
  "apply_writes [] prev = Inr prev"
| "apply_writes (w # ws) prev =
     (case apply_write w prev of Inl e \<Rightarrow> Inl e | Inr next \<Rightarrow> apply_writes ws next)"

section \<open>constants.ts and ScheduleDndProvider.tsx\<close>

text \<open>
  The six day labels are Hangul syllables; a label is written as the bytes of its UTF-8
  encoding (equality of labels is all the code uses).
\<close>

definition DAY_LABELS :: "string list" where
  "DAY_LABELS =
     [[CHR 0xEC, CHR 0x9B, CHR 0x94], [CHR 0xED, CHR 0x99, CHR 0x94],
      [CHR 0xEC, CHR 0x88, CHR 0x98], [CHR 0xEB, CHR 0xAA, CHR 0xA9],
      [CHR 0xEA, CHR 0xB8, CHR 0x88], [CHR 0xED, CHR 0x86, CHR 0xA0]]"

definition CellSize_WIDTH :: rat where
  "CellSize_WIDTH = 80"

definition CellSize_HEIGHT :: rat where
  "CellSize_HEIGHT = 30"

text \<open>
  Pixel offsets are JavaScript numbers; they are modelled as rationals (every finite double
  is one) with exact arithmetic. \<^verbatim>\<open>Math.floor\<close> is the floor. \<^verbatim>\<open>Math.round\<close> returns the
  nearest integer and, of two equally near ones, the one closer to plus infinity
  (ECMAScript, Math.round), that is \<open>\<lfloor>v + 1/2\<rfloor>\<close>.
\<close>

definition Math_floor :: "rat \<Rightarrow> int" where
  "Math_floor v = \<lfloor>v\<rfloor>"

definition Math_round :: "rat \<Rightarrow> int" where
  "Math_round v = \<lfloor>v + 1 / 2\<rfloor>"

text \<open>\<^verbatim>\<open>Array.prototype.indexOf\<close>: the first index of the element, or \<open>-1\<close>.\<close>

fun indexOf :: "'a list \<Rightarrow> 'a \<Rightarrow> int" where
  "indexOf [] v = - 1"
| "indexOf (u # us) v =
     (if u = v then 0 else (let r = indexOf us v in if r < 0 then - 1 else r + 1))"

record ClientRect =
  top' :: rat
  left :: rat
  bottom :: rat
  right :: rat

record Transform =
  x' :: rat
  y' :: rat
  scaleX :: rat
  scaleY :: rat

text \<open>
  The modifier returned by \<^verbatim>\<open>createSnapModifier()\<close>; a rect that is \<^verbatim>\<open>null\<close> is \<open>None\<close> and
  its four sides default to \<open>0\<close>. The sides \<^verbatim>\<open>top\<close>, \<^verbatim>\<open>left\<close>, \<^verbatim>\<open>bottom\<close>, \<^verbatim>\<open>right\<close> of the
  dragged rect are \<open>t\<close>, \<open>l\<close>, \<open>b\<close>, \<open>r\<close> here.
\<close>

definition createSnapModifier ::
  "Transform \<Rightarrow> ClientRect option \<Rightarrow> ClientRect option \<Rightarrow> Transform" where
  "createSnapModifier transform containerNodeRect draggingNodeRect =
     (let containerTop = (case containerNodeRect of None \<Rightarrow> 0 | Some r \<Rightarrow> top' r);
          containerLeft = (case containerNodeRect of None \<Rightarrow> 0 | Some r \<Rightarrow> left r);
          containerBottom = (case containerNodeRect of None \<Rightarrow> 0 | Some r \<Rightarrow> bottom r);
          containerRight = (case containerNodeRect of None \<Rightarrow> 0 | Some r \<Rightarrow> right r);
          t = (case draggingNodeRect of None \<Rightarrow> 0 | Some r \<Rightarrow> top' r);
          l = (case draggingNodeRect of None \<Rightarrow> 0 | Some r \<Rightarrow> left r);
          b = (case draggingNodeRect of None \<Rightarrow> 0 | Some r \<Rightarrow> bottom r);
          r = (case draggingNodeRect of None \<Rightarrow> 0 | Some r \<Rightarrow> right r);
          minX = containerLeft - l + 120 + 1;
          minY = containerTop - t + 40 + 1;
          maxX = containerRight - r;
          maxY = containerBottom - b
      in transform
           \<lparr>x' := min (max (of_int (Math_round (x' transform / CellSize_WIDTH)) * CellSize_WIDTH)
                          minX) maxX,
            y' := min (max (of_int (Math_round (y' transform / CellSize_HEIGHT)) * CellSize_HEIGHT)
                          minY) maxY\<rparr>)"

text \<open>
  The drag-end event, as far as the handler reads it. \<^verbatim>\<open>active.id\<close> is built by
  \<^verbatim>\<open>ScheduleTable\<close> as \<^verbatim>\<open>`${tableId}:${index}`\<close>; the event carries the two parts the
  handler obtains from it: \<open>active_table\<close> is \<^verbatim>\<open>active.id.split(':')[0]\<close> and \<open>active_index\<close>
  is \<^verbatim>\<open>Number(active.id.split(':')[1])\<close> (a value that is no array index, \<^verbatim>\<open>NaN\<close> included,
  equals no index and is any integer outside the list). \<open>active_day\<close> is
  \<^verbatim>\<open>active.data.current?.day\<close>, and \<open>delta_x\<close>, \<open>delta_y\<close> are \<^verbatim>\<open>delta.x\<close>, \<^verbatim>\<open>delta.y\<close>.
\<close>

record DragEndEvent =
  active_table :: string
  active_index :: int
  active_day :: "string option"
  delta_x :: rat
  delta_y :: rat

text \<open>
  \<open>dragEndCall\<close> is the body of \<^verbatim>\<open>handleDragEnd\<close> up to its last line: \<open>None\<close> where the
  handler returns early, otherwise the arguments it passes to
  \<^verbatim>\<open>updateSchedulePosition\<close>. \<open>handleDragEnd\<close> is the handler as a function of the store.
\<close>

definition dragEndCall :: "string \<Rightarrow> DragEndEvent \<Rightarrow> (string \<times> int \<times> string \<times> int) option" where
  "dragEndCall tableId event =
     (if active_table event \<noteq> tableId then None
      else
        let nowDayIndex = (case active_day event of None \<Rightarrow> - 1 | Some d \<Rightarrow> indexOf DAY_LABELS d);
            moveDayIndex = Math_floor (delta_x event / CellSize_WIDTH);
            moveTimeIndex = Math_floor (delta_y event / CellSize_HEIGHT);
            newDayIndex = nowDayIndex + moveDayIndex
        in if newDayIndex < 0 \<or> newDayIndex \<ge> int (length DAY_LABELS) then None
           else
             let newDay = DAY_LABELS ! nat newDayIndex;
                 timeOffset = moveTimeIndex
             in Some (tableId, active_index event, newDay, timeOffset))"

definition handleDragEnd :: "string \<Rightarrow> DragEndEvent \<Rightarrow> SchedulesMap \<Rightarrow> js_error + SchedulesMap" where
  "handleDragEnd tableId event prev =
     (case dragEndCall tableId event of
        None \<Rightarrow> Inr prev
      | Some (t, scheduleIndex, newDay, timeOffset) \<Rightarrow>
          updateSchedulePosition t scheduleIndex newDay timeOffset prev)"

section \<open>ScheduleTables: what the rendered controls do to the store\<close>

text \<open>
  \<^verbatim>\<open>Object.keys(schedulesMap).length === 1\<close>. The remove button of every table carries
  \<^verbatim>\<open>isDisabled={disabledRemoveButton}\<close>, and a disabled button delivers no click.
\<close>

definition disabledRemoveButton :: "SchedulesMap \<Rightarrow> bool" where
  "disabledRemoveButton schedulesMap = (length (map fst schedulesMap) = 1)"

definition clickRemove :: "string \<Rightarrow> SchedulesMap \<Rightarrow> SchedulesMap" where
  "clickRemove targetId schedulesMap =
     (if disabledRemoveButton schedulesMap then schedulesMap
      else removeTable targetId schedulesMap)"

text \<open>
  The interactions that reach the store: the duplicate and remove buttons of a table
  (\<^verbatim>\<open>ScheduleTables\<close>), the delete button of a placed schedule (\<^verbatim>\<open>removeSchedule\<close>), adding
  the sessions of a lecture from the search dialog (\<^verbatim>\<open>addSchedule\<close>) and the end of a drag
  (\<^verbatim>\<open>handleDragEnd\<close> of the table's provider).
\<close>

datatype ui_event =
    ClickDuplicate string nat
  | ClickRemove string
  | ClickDeleteSchedule string string int
  | ClickAddLecture string "Schedule list"
  | DragEnd string DragEndEvent

fun ui_step :: "ui_event \<Rightarrow> SchedulesMap \<Rightarrow> js_error + SchedulesMap" where
  "ui_step (ClickDuplicate targetId now) m = duplicateTable now targetId m"
| "ui_step (ClickRemove targetId) m = Inr (clickRemove targetId m)"
| "ui_step (ClickDeleteSchedule tableId d time) m = removeSchedule tableId d time m"
| "ui_step (ClickAddLecture tableId schedules) m = addSchedule tableId schedules m"
| "ui_step (DragEnd tableId event) m = handleDragEnd tableId event m"

fun ui_run :: "ui_event list \<Rightarrow> SchedulesMap \<Rightarrow> js_error + SchedulesMap" where
  "ui_run [] m = Inr m"
| "ui_run (e # es) m = (case ui_step e m of Inl err \<Rightarrow> Inl err | Inr m' \<Rightarrow> ui_run es m')"

section \<open>SearchDialog: the catalog cache\<close>

text \<open>
  A promise is an object; it is modelled by its identity, a number drawn from a counter
  when \<^verbatim>\<open>axios.get\<close> creates it. \<open>World\<close> is what the fetch functions read and change:
  \<^verbatim>\<open>window.lectureApiCache\<close> (\<open>None\<close> while the property is unset), the requests issued
  through \<^verbatim>\<open>axios.get\<close> so far, in order, and the promise counter.
\<close>

record 'd CacheEntry =
  promise :: nat
  timestamp :: rat
  data :: "'d option"

record 'd World =
  lectureApiCache :: "(string \<rightharpoonup> 'd CacheEntry) option"
  requests :: "string list"
  promises :: nat

text \<open>Module initialisation: \<^verbatim>\<open>if (!window.lectureApiCache) window.lectureApiCache = new Map()\<close>.\<close>

definition initCache :: "'d World \<Rightarrow> 'd World" where
  "initCache w =
     (case lectureApiCache w of
        None \<Rightarrow> w\<lparr>lectureApiCache := Some Map.empty\<rparr>
      | Some c \<Rightarrow> w)"

text \<open>\<^verbatim>\<open>window.lectureApiCache || new Map()\<close>.\<close>

definition getCache :: "'d World \<Rightarrow> (string \<rightharpoonup> 'd CacheEntry)" where
  "getCache w = (case lectureApiCache w of None \<Rightarrow> Map.empty | Some c \<Rightarrow> c)"

text \<open>
  \<open>now\<close> is the reading of \<^verbatim>\<open>performance.now()\<close>. Each function returns the promise it hands
  to its caller and the world after the call. \<^verbatim>\<open>cache.set\<close> changes the map that \<open>getCache\<close>
  returned: the global one when it is set, a map nobody else holds otherwise. The
  \<^verbatim>\<open>promise.then\<close> callback is only registered by the call; what it does when the promise is
  fulfilled is \<open>onFulfilled\<close>.
\<close>

definition fetchMajors :: "rat \<Rightarrow> 'd World \<Rightarrow> nat \<times> 'd World" where
  "fetchMajors now w =
     (let cache = getCache w;
          cacheKey = ''schedules-majors''
      in case cache cacheKey of
           Some cached \<Rightarrow> (promise cached, w)
         | None \<Rightarrow>
             let p = promises w;
                 w1 = w\<lparr>requests := requests w @ [''/schedules-majors.json''],
                        promises := Suc (promises w)\<rparr>;
                 entry = \<lparr>promise = p, timestamp = now, data = None\<rparr>
             in (p, case lectureApiCache w of
                      None \<Rightarrow> w1
                    | Some c \<Rightarrow> w1\<lparr>lectureApiCache := Some (c(cacheKey \<mapsto> entry))\<rparr>))"

definition fetchLiberalArts :: "rat \<Rightarrow> 'd World \<Rightarrow> nat \<times> 'd World" where
  "fetchLiberalArts now w =
     (let cache = getCache w;
          cacheKey = ''schedules-liberal-arts''
      in case cache cacheKey of
           Some cached \<Rightarrow> (promise cached, w)
         | None \<Rightarrow>
             let p = promises w;
                 w1 = w\<lparr>requests := requests w @ [''/schedules-liberal-arts.json''],
                        promises := Suc (promises w)\<rparr>;
                 entry = \<lparr>promise = p, timestamp = now, data = None\<rparr>
             in (p, case lectureApiCache w of
                      None \<Rightarrow> w1
                    | Some c \<Rightarrow> w1\<lparr>lectureApiCache := Some (c(cacheKey \<mapsto> entry))\<rparr>))"

definition onFulfilled :: "string \<Rightarrow> 'd \<Rightarrow> 'd World \<Rightarrow> 'd World" where
  "onFulfilled cacheKey d w =
     (case lectureApiCache w of
        None \<Rightarrow> w
      | Some c \<Rightarrow>
          (case c cacheKey of
             None \<Rightarrow> w
           | Some entry \<Rightarrow> w\<lparr>lectureApiCache := Some (c(cacheKey \<mapsto> entry\<lparr>data := Some d\<rparr>))\<rparr>))"

section \<open>SearchDialog: the filter pipeline\<close>

text \<open>
  \<^verbatim>\<open>credits?: number\<close> is a natural number or absent; \<^verbatim>\<open>!credits\<close> holds when it is absent
  or \<open>0\<close>, and \<^verbatim>\<open>String(credits)\<close> is its decimal rendering. (At run time the select hands
  over the strings \<^verbatim>\<open>""\<close>, \<^verbatim>\<open>"1"\<close>, \<^verbatim>\<open>"2"\<close>, \<^verbatim>\<open>"3"\<close>, on which \<^verbatim>\<open>!credits\<close> and
  \<^verbatim>\<open>String(credits)\<close> agree with this reading.)
\<close>

record SearchOption =
  query :: "string option"
  grades :: "int list"
  days :: "string list"
  times' :: "int list"
  majors :: "string list"
  credits' :: "nat option"

text \<open>
  \<^verbatim>\<open>String.prototype.toLowerCase\<close> on the letters A to Z; every other byte is kept (the
  built-in also maps letters beyond ASCII).
\<close>

definition toLowerCase :: "string \<Rightarrow> string" where
  "toLowerCase s =
     map (\<lambda>c. let n = (of_char c :: nat) in if 65 \<le> n \<and> n \<le> 90 then char_of (n + 32) else c) s"

text \<open>\<^verbatim>\<open>String.prototype.includes\<close> and \<^verbatim>\<open>String.prototype.startsWith\<close>.\<close>

fun String_includes :: "string \<Rightarrow> string \<Rightarrow> bool" where
  "String_includes [] q = (q = [])"
| "String_includes (c # s) q = (prefix q (c # s) \<or> String_includes s q)"

definition startsWith :: "string \<Rightarrow> string \<Rightarrow> bool" where
  "startsWith s p = prefix p s"

text \<open>
  \<^verbatim>\<open>parseSchedule\<close> lives in \<^verbatim>\<open>utils.ts\<close>, which is not among the sources; it is a
  parameter of the pipeline.
\<close>

definition filteredLectures ::
  "(string \<Rightarrow> Session list) \<Rightarrow> SearchOption \<Rightarrow> Lecture list \<Rightarrow> Lecture list" where
  "filteredLectures parseSchedule searchOptions lectures =
     (let q = (case query searchOptions of None \<Rightarrow> [] | Some s \<Rightarrow> s)
      in
      filter (\<lambda>l.
          if times' searchOptions = [] then True
          else let schedules = (if schedule l \<noteq> [] then parseSchedule (schedule l) else [])
               in list_ex (\<lambda>s. list_ex (\<lambda>time. time \<in> set (times' searchOptions)) (range' s))
                    schedules)
       (filter (\<lambda>l.
          if days searchOptions = [] then True
          else let schedules = (if schedule l \<noteq> [] then parseSchedule (schedule l) else [])
               in list_ex (\<lambda>s. day s \<in> set (days searchOptions)) schedules)
       (filter (\<lambda>l.
          case credits' searchOptions of
            None \<Rightarrow> True
          | Some c \<Rightarrow> c = 0 \<or> startsWith (credits l) (string_of_nat c))
       (filter (\<lambda>l. majors searchOptions = [] \<or> major l \<in> set (majors searchOptions))
       (filter (\<lambda>l. grades searchOptions = [] \<or> grade l \<in> set (grades searchOptions))
       (filter (\<lambda>l.
          String_includes (toLowerCase (title l)) (toLowerCase q)
          \<or> String_includes (toLowerCase (id' l)) (toLowerCase q))
        lectures))))))"

section \<open>Example values\<close>

definition lecture0 :: Lecture where
  "lecture0 = \<lparr>id' = ''CS101'', title = ''Algorithms'', credits = ''3'', major = ''CS'',
                schedule = [], grade = 2\<rparr>"

definition lecture10 :: Lecture where
  "lecture10 = \<lparr>id' = ''PE900'', title = ''Internship'', credits = ''10'', major = ''PE'',
                 schedule = [], grade = 4\<rparr>"

definition monday :: string where
  "monday = [CHR 0xEC, CHR 0x9B, CHR 0x94]"

definition tuesday :: string where
  "tuesday = [CHR 0xED, CHR 0x99, CHR 0x94]"

definition schedule0 :: Schedule where
  "schedule0 = \<lparr>day = monday, range' = [1, 2], room = ''R101'', lecture = lecture0\<rparr>"

definition store1 :: SchedulesMap where
  "store1 = [(''schedule-1'', [schedule0])]"

definition store2 :: SchedulesMap where
  "store2 = [(''schedule-1'', [schedule0]), (''schedule-2'', [])]"

definition store3 :: SchedulesMap where
  "store3 = [(''schedule-1'', [schedule0]), (''schedule-2'', []),
             (''schedule-1730000000000'', [])]"

definition container0 :: ClientRect where
  "container0 = \<lparr>top' = 0, left = 0, bottom = 760, right = 600\<rparr>"

definition dragging0 :: ClientRect where
  "dragging0 = \<lparr>top' = 101, left = 281, bottom = 160, right = 360\<rparr>"

definition drag79 :: DragEndEvent where
  "drag79 = \<lparr>active_table = ''schedule-1'', active_index = 0, active_day = Some monday,
              delta_x = 79, delta_y = 29\<rparr>"

text \<open>
  Rounding as the specification words it: to the nearest integer, a tie going away from
  zero. It is here to be compared with \<open>Math_round\<close> and \<open>Math_floor\<close>.
\<close>

definition spec_round :: "rat \<Rightarrow> int" where
  "spec_round v = (if v < 0 then - \<lfloor>- v + 1 / 2\<rfloor> else \<lfloor>v + 1 / 2\<rfloor>)"

definition world0 :: "unit World" where
  "world0 = \<lparr>lectureApiCache = Some Map.empty, requests = [], promises = 0\<rparr>"

definition parseNothing :: "string \<Rightarrow> Session list" where
  "parseNothing s = []"

definition credits1 :: SearchOption where
  "credits1 = \<lparr>query = None, grades = [], days = [], times' = [], majors = [],
                credits' = Some 1\<rparr>"

definition credits3 :: SearchOption where
  "credits3 = \<lparr>query = None, grades = [], days = [], times' = [], majors = [],
                credits' = Some 3\<rparr>"

text \<open>What every store is as a JavaScript object with at least one table.\<close>

definition store_ok :: "SchedulesMap \<Rightarrow> bool" where
  "store_ok m = (m \<noteq> [] \<and> distinct (map fst m))"

section \<open>Position updates\<close>

lemma map_enumerate_in:
  assumes "0 \<le> k" "nat k < length xs"
  shows "map (\<lambda>(index, s). if int index \<noteq> k then s else f s) (enumerate 0 xs)
     = xs[nat k := f (xs ! nat k)]"
  using assms by (intro nth_equalityI) (auto simp: nth_enumerate_eq nth_list_update)

lemma map_enumerate_out:
  assumes "k < 0 \<or> int (length xs) \<le> k"
  shows "map (\<lambda>(index, s). if int index \<noteq> k then s else f s) (enumerate 0 xs) = xs"
  using assms by (intro nth_equalityI) (auto simp: nth_enumerate_eq)

lemma updateSchedulePosition_in:
  assumes "map_of prev tableId = Some cur" "0 \<le> i" "nat i < length cur"
  shows "updateSchedulePosition tableId i newDay off prev =
     Inr (AList.update tableId
            (cur[nat i := (cur ! nat i)\<lparr>day := newDay,
                   range' := map (\<lambda>time. time + off) (range' (cur ! nat i))\<rparr>]) prev)"
  using assms by (simp add: updateSchedulePosition_def map_enumerate_in)

lemma updateSchedulePosition_out:
  assumes "map_of prev tableId = Some cur" "i < 0 \<or> int (length cur) \<le> i"
  shows "updateSchedulePosition tableId i newDay off prev = Inr prev"
  using assms by (simp add: updateSchedulePosition_def map_enumerate_out AList.update_triv)

lemma update_present_keys:
  assumes "map_of prev k = Some v"
  shows "map fst (AList.update k w prev) = map fst prev"
proof -
  from assms have "k \<in> set (map fst prev)"
    by (metis map_of_eq_None_iff option.distinct(1) set_map)
  then show ?thesis by (simp add: AList.update_keys)
qed

text \<open>
  C10. For a table of the store and an index inside its entry list,
  \<open>updateSchedulePosition\<close> succeeds and changes nothing but the day and the range of the
  entry at that index: the entry's room and lecture, every entry at another index, the
  length of the list, every other table and the order of the table keys stay as they were.
\<close>

theorem updateSchedulePosition_frame:
  assumes "map_of prev tableId = Some cur" and "0 \<le> i" and "i < int (length cur)"
  shows "\<exists>next cur'.
     updateSchedulePosition tableId i newDay off prev = Inr next \<and>
     map_of next tableId = Some cur' \<and>
     length cur' = length cur \<and>
     day (cur' ! nat i) = newDay \<and>
     range' (cur' ! nat i) = map (\<lambda>time. time + off) (range' (cur ! nat i)) \<and>
     room (cur' ! nat i) = room (cur ! nat i) \<and>
     lecture (cur' ! nat i) = lecture (cur ! nat i) \<and>
     (\<forall>j < length cur. j \<noteq> nat i \<longrightarrow> cur' ! j = cur ! j) \<and>
     (\<forall>k. k \<noteq> tableId \<longrightarrow> map_of next k = map_of prev k) \<and>
     map fst next = map fst prev"
proof -
  from assms have n: "nat i < length cur" by simp
  show ?thesis
    using n assms(1,2)
    by (simp add: updateSchedulePosition_in AList.update_conv' update_present_keys)
qed

theorem updateSchedulePosition_frame_witness:
  "map_of store2 ''schedule-1'' = Some [schedule0] \<and> (0::int) \<le> 0 \<and>
   (0::int) < int (length [schedule0]) \<and>
   updateSchedulePosition ''schedule-1'' 0 tuesday 3 store2 =
     Inr [(''schedule-1'', [\<lparr>day = tuesday, range' = [4, 5], room = ''R101'', lecture = lecture0\<rparr>]),
          (''schedule-2'', [])]"
  using updateSchedulePosition_frame [of store2 "''schedule-1''" "[schedule0]" 0 tuesday 3]
  by (simp add: store2_def schedule0_def updateSchedulePosition_def)

text \<open>
  C7. For a table of the store, an index inside its entry list, a day and an integer
  offset: moving the entry and then moving it back to its former day with the negated
  offset gives back the store it started from, so the entry equals the original.
\<close>

theorem updateSchedulePosition_round_trip:
  assumes "map_of prev tableId = Some cur" and "0 \<le> i" and "i < int (length cur)"
  shows "\<exists>mid.
     updateSchedulePosition tableId i newDay off prev = Inr mid \<and>
     updateSchedulePosition tableId i (day (cur ! nat i)) (- off) mid = Inr prev"
proof -
  from assms have n: "nat i < length cur" by simp
  let ?e = "(cur ! nat i)\<lparr>day := newDay, range' := map (\<lambda>time. time + off) (range' (cur ! nat i))\<rparr>"
  let ?mid = "AList.update tableId (cur[nat i := ?e]) prev"
  have 1: "updateSchedulePosition tableId i newDay off prev = Inr ?mid"
    using assms n by (simp add: updateSchedulePosition_in)
  have 2: "map_of ?mid tableId = Some (cur[nat i := ?e])"
    by (simp add: AList.update_conv')
  have 3: "?e\<lparr>day := day (cur ! nat i), range' := map (\<lambda>time. time + - off) (range' ?e)\<rparr> = cur ! nat i"
    by (simp add: comp_def)
  have "updateSchedulePosition tableId i (day (cur ! nat i)) (- off) ?mid
     = Inr (AList.update tableId ((cur[nat i := ?e])[nat i := cur ! nat i]) ?mid)"
    using n assms(2) 3 by (subst updateSchedulePosition_in [OF 2]) simp_all
  also have "\<dots> = Inr prev"
    using assms(1) by (simp add: AList.update_triv)
  finally show ?thesis using 1 by simp
qed

theorem updateSchedulePosition_round_trip_witness:
  "map_of store2 ''schedule-1'' = Some [schedule0] \<and> (0::int) \<le> 0 \<and>
   (0::int) < int (length [schedule0]) \<and>
   (\<exists>mid. updateSchedulePosition ''schedule-1'' 0 tuesday 3 store2 = Inr mid \<and>
      updateSchedulePosition ''schedule-1'' 0 monday (- 3) mid = Inr store2)"
  using updateSchedulePosition_round_trip [of store2 "''schedule-1''" "[schedule0]" 0 tuesday 3]
  by (simp add: store2_def schedule0_def)

text \<open>
  C4, as the code has it. For a table of the store and an index outside its entry list,
  \<open>updateSchedulePosition\<close> raises nothing and returns the store it was given: no index
  equals the requested one, so every entry is kept.
\<close>

theorem updateSchedulePosition_out_of_bounds:
  assumes "map_of prev tableId = Some cur" and "i < 0 \<or> int (length cur) \<le> i"
  shows "updateSchedulePosition tableId i newDay off prev = Inr prev"
  using assms by (rule updateSchedulePosition_out)

theorem updateSchedulePosition_out_of_bounds_witness:
  "map_of store2 ''schedule-1'' = Some [schedule0] \<and>
   ((5::int) < 0 \<or> int (length [schedule0]) \<le> 5) \<and>
   updateSchedulePosition ''schedule-1'' 5 tuesday 3 store2 = Inr store2"
  using updateSchedulePosition_out_of_bounds [of store2 "''schedule-1''" "[schedule0]" 5 tuesday 3]
  by (simp add: store2_def)

text \<open>
  C4 as the claim states it fails: index 5 of a one-entry table is out of bounds, and the
  result is a store, not an error.
\<close>

theorem updateSchedulePosition_index_error_counterexample:
  "map_of store2 ''schedule-1'' = Some [schedule0] \<and> int (length [schedule0]) \<le> 5 \<and>
   \<not> isl (updateSchedulePosition ''schedule-1'' 5 tuesday 3 store2)"
  by (simp add: store2_def updateSchedulePosition_def)

text \<open>
  C5, as the code has it. For a table id that is not a key of the store, the state updater
  of \<open>addSchedule\<close> throws a \<^verbatim>\<open>TypeError\<close> (it spreads \<^verbatim>\<open>prev[tableId]\<close>, which is
  \<^verbatim>\<open>undefined\<close>) and produces no mapping.
\<close>

theorem addSchedule_unknown_table:
  assumes "map_of prev tableId = None"
  shows "addSchedule tableId schedules prev = Inl TypeError"
  using assms by (simp add: addSchedule_def)

theorem addSchedule_unknown_table_witness:
  "map_of store2 ''schedule-9'' = None \<and>
   addSchedule ''schedule-9'' [schedule0] store2 = Inl TypeError"
  using addSchedule_unknown_table [of store2 "''schedule-9''" "[schedule0]"]
  by (simp add: store2_def)

text \<open>
  C5 as the claim states it fails: for the unknown id \<open>schedule-9\<close> the updater does not
  return the unchanged store, it throws.
\<close>

theorem addSchedule_silent_noop_counterexample:
  "map_of store2 ''schedule-9'' = None \<and>
   addSchedule ''schedule-9'' [schedule0] store2 \<noteq> Inr store2 \<and>
   isl (addSchedule ''schedule-9'' [schedule0] store2)"
  by (simp add: store2_def addSchedule_def)

section \<open>Tables of the store\<close>

lemma store_ok_update: "store_ok m \<Longrightarrow> store_ok (AList.update k v m)"
  by (simp add: store_ok_def AList.distinct_update)

lemma store_ok_clickRemove:
  assumes "store_ok m"
  shows "store_ok (clickRemove targetId m)"
proof (cases "disabledRemoveButton m")
  case True
  with assms show ?thesis by (simp add: clickRemove_def)
next
  case False
  from assms have d: "distinct (map fst m)" and ne: "m \<noteq> []"
    by (simp_all add: store_ok_def)
  from False ne have two: "2 \<le> length (map fst m)"
    by (cases m) (auto simp: disabledRemoveButton_def Suc_le_eq)
  have "length (map fst (AList.delete targetId m)) = length (remove1 targetId (map fst m))"
    using d by (simp add: AList.delete_keys distinct_remove1_removeAll)
  also have "\<dots> \<ge> 1"
    using two by (auto simp: length_remove1)
  finally have "AList.delete targetId m \<noteq> []" by auto
  with d False show ?thesis
    by (simp add: clickRemove_def removeTable_def store_ok_def AList.distinct_delete)
qed

lemma store_ok_ui_step:
  assumes "store_ok m" and "ui_step e m = Inr m'"
  shows "store_ok m'"
proof (cases e)
  case (ClickDuplicate targetId now)
  with assms show ?thesis
    by (auto simp: duplicateTable_def store_ok_update split: option.splits)
next
  case (ClickRemove targetId)
  with assms show ?thesis by (auto simp: store_ok_clickRemove)
next
  case (ClickDeleteSchedule tableId d time)
  with assms show ?thesis
    by (auto simp: removeSchedule_def store_ok_update split: option.splits)
next
  case (ClickAddLecture tableId schedules)
  with assms show ?thesis
    by (auto simp: addSchedule_def store_ok_update split: option.splits)
next
  case (DragEnd tableId event)
  with assms show ?thesis
    by (auto simp: handleDragEnd_def updateSchedulePosition_def store_ok_update
        split: option.splits)
qed

lemma store_ok_ui_run: "store_ok m \<Longrightarrow> ui_run es m = Inr m' \<Longrightarrow> store_ok m'"
proof (induction es arbitrary: m)
  case Nil
  then show ?case by simp
next
  case (Cons e es)
  then show ?case
    by (auto split: sum.splits dest: store_ok_ui_step)
qed

text \<open>
  C1, as the code has it. The store's \<open>removeTable\<close> has no guard; the guard is the remove
  button of \<open>ScheduleTables\<close>, disabled while the store holds exactly one table. So a click
  on the remove button of a sole table leaves the store as it is, and every store reached
  from a store with at least one table (and distinct keys, as an object has) through the
  rendered controls has at least one table.
\<close>

theorem clickRemove_keeps_last_table:
  "(length (map fst m) = 1 \<longrightarrow> clickRemove targetId m = m) \<and>
   (m \<noteq> [] \<and> distinct (map fst m) \<and> ui_run es m = Inr m' \<longrightarrow>
      m' \<noteq> [] \<and> distinct (map fst m'))"
  using store_ok_ui_run [of m es m']
  by (simp add: clickRemove_def disabledRemoveButton_def store_ok_def)

theorem clickRemove_keeps_last_table_witness:
  "length (map fst store1) = 1 \<and> clickRemove ''schedule-1'' store1 = store1 \<and>
   store1 \<noteq> [] \<and> distinct (map fst store1) \<and>
   ui_run [ClickRemove ''schedule-1'', ClickDuplicate ''schedule-1'' 7, ClickRemove ''schedule-1'']
     store1 = Inr [(''schedule-7'', [schedule0])] \<and>
   [(''schedule-7'', [schedule0])] \<noteq> ([] :: SchedulesMap)"
proof -
  have run: "ui_run [ClickRemove ''schedule-1'', ClickDuplicate ''schedule-1'' 7,
       ClickRemove ''schedule-1''] store1 = Inr [(''schedule-7'', [schedule0])]"
    by (simp add: store1_def clickRemove_def disabledRemoveButton_def duplicateTable_def
        newTableId_def string_of_nat.simps removeTable_def)
  have pre: "store1 \<noteq> [] \<and> distinct (map fst store1)" and one: "length (map fst store1) = 1"
    by (simp_all add: store1_def)
  from clickRemove_keeps_last_table
    [of store1 "''schedule-1''"
      "[ClickRemove ''schedule-1'', ClickDuplicate ''schedule-1'' 7, ClickRemove ''schedule-1'']"
      "[(''schedule-7'', [schedule0])]"]
  show ?thesis using run pre one by simp
qed

text \<open>
  C1 as the claim states it fails: \<open>removeTable\<close> on the only table of a store is not
  rejected, it returns the empty mapping.
\<close>

theorem removeTable_last_table_counterexample:
  "length (map fst store1) = 1 \<and> removeTable ''schedule-1'' store1 = [] \<and>
   removeTable ''schedule-1'' store1 \<noteq> store1"
  by (simp add: store1_def removeTable_def)

section \<open>Duplicated tables\<close>

lemma apply_write_frame:
  assumes "apply_write w prev = Inr next" and "k \<noteq> written_table w"
  shows "map_of next k = map_of prev k"
  using assms
  by (cases w)
    (auto simp: addSchedule_def removeSchedule_def duplicateTable_def removeTable_def
      updateSchedulePosition_def AList.update_conv' AList.delete_conv' split: option.splits)

lemma apply_writes_frame:
  "apply_writes ws prev = Inr next \<Longrightarrow> \<forall>w \<in> set ws. written_table w \<noteq> k \<Longrightarrow>
   map_of next k = map_of prev k"
proof (induction ws arbitrary: prev)
  case Nil
  then show ?case by simp
next
  case (Cons w ws)
  from Cons.prems(1) obtain mid where
    step: "apply_write w prev = Inr mid" and rest: "apply_writes ws mid = Inr next"
    by (auto split: sum.splits)
  from Cons.prems(2) have "k \<noteq> written_table w" and "\<forall>w \<in> set ws. written_table w \<noteq> k"
    by auto
  with step rest Cons.IH [of mid] show ?case
    by (simp add: apply_write_frame)
qed

text \<open>
  C6, as the code has it. For a source table of the store, when the id made from the clock
  reading is not yet a key of the store, \<open>duplicateTable\<close> appends a table under that id
  whose entries equal the source's, with every table that was there unchanged; and after
  any sequence of write actions none of which writes one of the two tables, that table
  still has those entries.
\<close>

theorem duplicateTable_fresh_copy:
  assumes "map_of prev tableId = Some cur" and "map_of prev (newTableId now) = None"
  shows "\<exists>next.
     duplicateTable now tableId prev = Inr next \<and>
     map fst next = map fst prev @ [newTableId now] \<and>
     map_of next (newTableId now) = Some cur \<and>
     (\<forall>k. k \<noteq> newTableId now \<longrightarrow> map_of next k = map_of prev k) \<and>
     (\<forall>ws next'. apply_writes ws next = Inr next' \<longrightarrow>
        ((\<forall>w \<in> set ws. written_table w \<noteq> newTableId now) \<longrightarrow>
           map_of next' (newTableId now) = Some cur) \<and>
        ((\<forall>w \<in> set ws. written_table w \<noteq> tableId) \<longrightarrow>
           map_of next' tableId = Some cur))"
proof -
  let ?next = "AList.update (newTableId now) cur prev"
  from assms have neq: "tableId \<noteq> newTableId now" by auto
  from assms(2) have notin: "newTableId now \<notin> set (map fst prev)"
    by (simp add: map_of_eq_None_iff)
  have 1: "duplicateTable now tableId prev = Inr ?next"
    using assms(1) by (simp add: duplicateTable_def)
  have 2: "map fst ?next = map fst prev @ [newTableId now]"
    using notin by (simp add: AList.update_keys)
  have 3: "map_of ?next (newTableId now) = Some cur"
    by (simp add: AList.update_conv')
  have 4: "map_of ?next k = map_of prev k" if "k \<noteq> newTableId now" for k
    using that by (simp add: AList.update_conv')
  have 5: "map_of ?next tableId = Some cur"
    using 4 [OF neq] assms(1) by simp
  have 6: "map_of next' (newTableId now) = Some cur"
    if "apply_writes ws ?next = Inr next'" "\<forall>w \<in> set ws. written_table w \<noteq> newTableId now"
    for ws next'
    using apply_writes_frame [OF that] 3 by simp
  have 7: "map_of next' tableId = Some cur"
    if "apply_writes ws ?next = Inr next'" "\<forall>w \<in> set ws. written_table w \<noteq> tableId"
    for ws next'
    using apply_writes_frame [OF that] 5 by simp
  show ?thesis
    using 1 2 3 4 6 7 by blast
qed

theorem duplicateTable_fresh_copy_witness:
  "map_of store2 ''schedule-1'' = Some [schedule0] \<and>
   map_of store2 (newTableId 1730000000000) = None \<and>
   duplicateTable 1730000000000 ''schedule-1'' store2 =
     Inr (store2 @ [(''schedule-1730000000000'', [schedule0])])"
proof -
  have h1: "map_of store2 ''schedule-1'' = Some [schedule0]"
    by (simp add: store2_def)
  have h2: "map_of store2 (newTableId 1730000000000) = None"
    by (simp add: store2_def newTableId_def string_of_nat.simps)
  from duplicateTable_fresh_copy [OF h1 h2]
  show ?thesis using h1 h2
    by (simp add: store2_def duplicateTable_def newTableId_def string_of_nat.simps)
qed

text \<open>
  C6 as the claim states it fails when the clock reading repeats: duplicating
  \<open>schedule-2\<close> and then \<open>schedule-1\<close> in the same millisecond gives both copies the same
  id, so the second call creates no table and replaces the entries of the first copy.
\<close>

theorem duplicateTable_same_millisecond_counterexample:
  "duplicateTable 1730000000000 ''schedule-2'' store2 = Inr store3 \<and>
   map_of store3 ''schedule-1'' = Some [schedule0] \<and>
   duplicateTable 1730000000000 ''schedule-1'' store3 =
     Inr [(''schedule-1'', [schedule0]), (''schedule-2'', []),
          (''schedule-1730000000000'', [schedule0])] \<and>
   map_of store3 (newTableId 1730000000000) = Some []"
  by (simp add: store2_def store3_def duplicateTable_def newTableId_def string_of_nat.simps)

section \<open>Snapping and the end of a drag\<close>

lemma Math_round_nearest: "\<bar>of_int (Math_round v) - v\<bar> \<le> 1 / 2"
  unfolding Math_round_def by linarith

lemma Math_round_tie: "Math_round (of_int k + 1 / 2) = k + 1"
  unfolding Math_round_def by simp

lemma snap_nearest:
  assumes "0 < c"
  shows "\<bar>of_int (Math_round (v / c)) * c - v\<bar> \<le> c / 2"
proof -
  have "of_int (Math_round (v / c)) * c - v = (of_int (Math_round (v / c)) - v / c) * c"
    using assms by (simp add: left_diff_distrib)
  then have "\<bar>of_int (Math_round (v / c)) * c - v\<bar> = \<bar>of_int (Math_round (v / c)) - v / c\<bar> * c"
    using assms by (simp add: abs_mult)
  also have "\<dots> \<le> (1 / 2) * c"
    using assms Math_round_nearest [of "v / c"] by (intro mult_right_mono) simp_all
  finally show ?thesis by simp
qed

lemma snap_tie:
  assumes "0 < c" and "v = of_int k * c + c / 2"
  shows "of_int (Math_round (v / c)) * c = (of_int k + 1) * c"
proof -
  from assms have "v / c = of_int k + 1 / 2"
    by (simp add: field_simps)
  then show ?thesis by (simp add: Math_round_tie)
qed

lemma x_createSnapModifier:
  "x' (createSnapModifier t (Some c) (Some d)) =
     min (max (of_int (Math_round (x' t / 80)) * 80) (left c - left d + 121)) (right c - right d)"
  by (simp add: createSnapModifier_def Let_def CellSize_WIDTH_def)

lemma y_createSnapModifier:
  "y' (createSnapModifier t (Some c) (Some d)) =
     min (max (of_int (Math_round (y' t / 30)) * 30) (top' c - top' d + 41)) (bottom c - bottom d)"
  by (simp add: createSnapModifier_def Let_def CellSize_HEIGHT_def)

text \<open>
  C3, as the code has it. Where the clamp does not cut in, the modifier moves a raw delta
  to \<open>Math_round (d / c) * c\<close> with \<open>c = 80\<close> across and \<open>c = 30\<close> down: a whole number of
  cells, at most half a cell from the raw delta, and a delta exactly half way between two
  cells goes to the greater one (towards plus infinity, for negative deltas too).
\<close>

theorem createSnapModifier_rounds_half_up:
  assumes "left c - left d + 121 \<le> of_int (Math_round (x' t / 80)) * 80"
    and "of_int (Math_round (x' t / 80)) * 80 \<le> right c - right d"
    and "top' c - top' d + 41 \<le> of_int (Math_round (y' t / 30)) * 30"
    and "of_int (Math_round (y' t / 30)) * 30 \<le> bottom c - bottom d"
  shows "x' (createSnapModifier t (Some c) (Some d)) = of_int (Math_round (x' t / 80)) * 80 \<and>
     y' (createSnapModifier t (Some c) (Some d)) = of_int (Math_round (y' t / 30)) * 30 \<and>
     \<bar>x' (createSnapModifier t (Some c) (Some d)) - x' t\<bar> \<le> 40 \<and>
     \<bar>y' (createSnapModifier t (Some c) (Some d)) - y' t\<bar> \<le> 15 \<and>
     (\<forall>k. x' t = of_int k * 80 + 40 \<longrightarrow>
        x' (createSnapModifier t (Some c) (Some d)) = (of_int k + 1) * 80) \<and>
     (\<forall>k. y' t = of_int k * 30 + 15 \<longrightarrow>
        y' (createSnapModifier t (Some c) (Some d)) = (of_int k + 1) * 30)"
proof -
  have x: "x' (createSnapModifier t (Some c) (Some d)) = of_int (Math_round (x' t / 80)) * 80"
    using assms(1,2) by (simp add: x_createSnapModifier)
  have y: "y' (createSnapModifier t (Some c) (Some d)) = of_int (Math_round (y' t / 30)) * 30"
    using assms(3,4) by (simp add: y_createSnapModifier)
  have nx: "\<bar>of_int (Math_round (x' t / 80)) * 80 - x' t\<bar> \<le> 40"
    using snap_nearest [of 80 "x' t"] by simp
  have ny: "\<bar>of_int (Math_round (y' t / 30)) * 30 - y' t\<bar> \<le> 15"
    using snap_nearest [of 30 "y' t"] by simp
  have tx: "of_int (Math_round (x' t / 80)) * 80 = (of_int k + 1) * (80::rat)"
    if "x' t = of_int k * 80 + 40" for k
    using snap_tie [of 80 "x' t" k] that by simp
  have ty: "of_int (Math_round (y' t / 30)) * 30 = (of_int k + 1) * (30::rat)"
    if "y' t = of_int k * 30 + 15" for k
    using snap_tie [of 30 "y' t" k] that by simp
  show ?thesis
    unfolding x y using nx ny tx ty by blast
qed

lemma round_83: "Math_round (83 / 80) = 1"
  by (simp add: Math_round_def floor_eq_iff)

lemma round_minus_half: "Math_round (- (1 / 2)) = 0"
  by (simp add: Math_round_def)

theorem createSnapModifier_rounds_half_up_witness:
  "x' (createSnapModifier \<lparr>x' = 83, y' = - 15, scaleX = 1, scaleY = 1\<rparr>
         (Some container0) (Some dragging0)) = 80 \<and>
   y' (createSnapModifier \<lparr>x' = 83, y' = - 15, scaleX = 1, scaleY = 1\<rparr>
         (Some container0) (Some dragging0)) = 0"
proof -
  let ?t = "\<lparr>x' = 83, y' = - 15, scaleX = 1, scaleY = 1\<rparr>"
  have h1: "left container0 - left dragging0 + 121 \<le> of_int (Math_round (x' ?t / 80)) * 80"
    and h2: "of_int (Math_round (x' ?t / 80)) * 80 \<le> right container0 - right dragging0"
    and h3: "top' container0 - top' dragging0 + 41 \<le> of_int (Math_round (y' ?t / 30)) * 30"
    and h4: "of_int (Math_round (y' ?t / 30)) * 30 \<le> bottom container0 - bottom dragging0"
    by (simp_all add: container0_def dragging0_def round_83 round_minus_half)
  from createSnapModifier_rounds_half_up [OF h1 h2 h3 h4]
  show ?thesis by (simp add: round_83 round_minus_half)
qed

text \<open>
  C3 as the claim states it fails at the tie: a raw delta of \<open>-40\<close>, half a cell to the
  left, is moved to \<open>0\<close>, while rounding away from zero would give \<open>-80\<close> (which the clamp
  would admit).
\<close>

theorem createSnapModifier_tie_counterexample:
  "x' (createSnapModifier \<lparr>x' = - 40, y' = 0, scaleX = 1, scaleY = 1\<rparr>
         (Some container0) (Some dragging0)) = 0 \<and>
   of_int (spec_round (- 40 / 80)) * (80::rat) = - 80 \<and>
   left container0 - left dragging0 + 121 \<le> - 80"
  by (simp add: x_createSnapModifier round_minus_half spec_round_def container0_def dragging0_def)

lemma indexOf_monday: "indexOf DAY_LABELS monday = 0"
  by (simp add: DAY_LABELS_def monday_def)

lemma floor_le_mult:
  assumes "0 < (c::rat)"
  shows "of_int \<lfloor>v / c\<rfloor> * c \<le> v \<and> v < of_int \<lfloor>v / c\<rfloor> * c + c"
proof -
  have lo: "of_int \<lfloor>v / c\<rfloor> \<le> v / c" and hi: "v / c < of_int \<lfloor>v / c\<rfloor> + 1"
    by linarith+
  from assms have "(of_int \<lfloor>v / c\<rfloor> \<le> v / c) = (of_int \<lfloor>v / c\<rfloor> * c \<le> v)"
    by (rule pos_le_divide_eq)
  with lo have "of_int \<lfloor>v / c\<rfloor> * c \<le> v"
    by blast
  moreover from assms have "(v / c < of_int \<lfloor>v / c\<rfloor> + 1) = (v < (of_int \<lfloor>v / c\<rfloor> + 1) * c)"
    by (rule pos_divide_less_eq)
  with hi have "v < (of_int \<lfloor>v / c\<rfloor> + 1) * c"
    by blast
  ultimately show ?thesis by (simp add: distrib_right)
qed

lemma floor_eq_round_iff:
  assumes "0 < (c::rat)"
  shows "(\<lfloor>v / c\<rfloor> = Math_round (v / c)) = (v - of_int \<lfloor>v / c\<rfloor> * c < c / 2)"
proof -
  have "(\<lfloor>v / c\<rfloor> = Math_round (v / c)) = (v / c - of_int \<lfloor>v / c\<rfloor> < 1 / 2)"
    unfolding Math_round_def by linarith
  also have "\<dots> = (v - of_int \<lfloor>v / c\<rfloor> * c < c / 2)"
    using assms by (simp add: field_simps)
  finally show ?thesis .
qed

text \<open>
  C2, as the code has it. For a drag of this table that ends on a day of the grid, the
  handler passes to \<open>updateSchedulePosition\<close> the day \<open>dayDelta\<close> columns from the start day
  and the offset \<open>timeDelta\<close>, where both are floors: \<open>dayDelta\<close> is the integer with
  \<open>dayDelta * 80 \<le> x < dayDelta * 80 + 80\<close> and \<open>timeDelta\<close> the one with
  \<open>timeDelta * 30 \<le> y < timeDelta * 30 + 30\<close>. They equal the nearest integers exactly
  when the rest is less than half a cell, as it is for whole multiples of the cell size.
\<close>

theorem dragEndCall_floor:
  assumes "active_table event = tableId" and "active_day event = Some d"
    and "0 \<le> indexOf DAY_LABELS d + \<lfloor>delta_x event / 80\<rfloor>"
    and "indexOf DAY_LABELS d + \<lfloor>delta_x event / 80\<rfloor> < 6"
  shows "dragEndCall tableId event =
       Some (tableId, active_index event,
             DAY_LABELS ! nat (indexOf DAY_LABELS d + \<lfloor>delta_x event / 80\<rfloor>),
             \<lfloor>delta_y event / 30\<rfloor>) \<and>
     handleDragEnd tableId event prev =
       updateSchedulePosition tableId (active_index event)
         (DAY_LABELS ! nat (indexOf DAY_LABELS d + \<lfloor>delta_x event / 80\<rfloor>))
         \<lfloor>delta_y event / 30\<rfloor> prev \<and>
     of_int \<lfloor>delta_x event / 80\<rfloor> * 80 \<le> delta_x event \<and>
     delta_x event < of_int \<lfloor>delta_x event / 80\<rfloor> * 80 + 80 \<and>
     of_int \<lfloor>delta_y event / 30\<rfloor> * 30 \<le> delta_y event \<and>
     delta_y event < of_int \<lfloor>delta_y event / 30\<rfloor> * 30 + 30 \<and>
     (\<lfloor>delta_x event / 80\<rfloor> = Math_round (delta_x event / 80)) =
       (delta_x event - of_int \<lfloor>delta_x event / 80\<rfloor> * 80 < 40) \<and>
     (\<lfloor>delta_y event / 30\<rfloor> = Math_round (delta_y event / 30)) =
       (delta_y event - of_int \<lfloor>delta_y event / 30\<rfloor> * 30 < 15)"
proof -
  have call: "dragEndCall tableId event =
       Some (tableId, active_index event,
             DAY_LABELS ! nat (indexOf DAY_LABELS d + \<lfloor>delta_x event / 80\<rfloor>),
             \<lfloor>delta_y event / 30\<rfloor>)"
    using assms
    by (simp add: dragEndCall_def Let_def Math_floor_def CellSize_WIDTH_def CellSize_HEIGHT_def
        DAY_LABELS_def)
  then have handler: "handleDragEnd tableId event prev =
       updateSchedulePosition tableId (active_index event)
         (DAY_LABELS ! nat (indexOf DAY_LABELS d + \<lfloor>delta_x event / 80\<rfloor>))
         \<lfloor>delta_y event / 30\<rfloor> prev"
    by (simp add: handleDragEnd_def)
  show ?thesis
    using call handler floor_le_mult [of 80 "delta_x event"] floor_le_mult [of 30 "delta_y event"]
      floor_eq_round_iff [of 80 "delta_x event"] floor_eq_round_iff [of 30 "delta_y event"]
    by simp
qed

lemma floor_79: "\<lfloor>(79::rat) / 80\<rfloor> = 0"
  by (simp add: floor_eq_iff)

lemma floor_29: "\<lfloor>(29::rat) / 30\<rfloor> = 0"
  by (simp add: floor_eq_iff)

theorem dragEndCall_floor_witness:
  "active_table drag79 = ''schedule-1'' \<and> active_day drag79 = Some monday \<and>
   dragEndCall ''schedule-1'' drag79 = Some (''schedule-1'', 0, monday, 0) \<and>
   handleDragEnd ''schedule-1'' drag79 store2 = Inr store2"
proof -
  have h1: "active_table drag79 = ''schedule-1''" and h2: "active_day drag79 = Some monday"
    by (simp_all add: drag79_def)
  have x: "delta_x drag79 = 79" and y: "delta_y drag79 = 29" and i: "active_index drag79 = 0"
    by (simp_all add: drag79_def)
  have h3: "0 \<le> indexOf DAY_LABELS monday + \<lfloor>delta_x drag79 / 80\<rfloor>"
    and h4: "indexOf DAY_LABELS monday + \<lfloor>delta_x drag79 / 80\<rfloor> < 6"
    by (simp_all add: x floor_79 indexOf_monday)
  have m: "DAY_LABELS ! 0 = monday"
    by (simp add: DAY_LABELS_def monday_def)
  have u: "updateSchedulePosition ''schedule-1'' 0 monday 0 store2 = Inr store2"
    by (simp add: updateSchedulePosition_def store2_def schedule0_def)
  from dragEndCall_floor [OF h1 h2 h3 h4, of store2]
  show ?thesis
    using h1 h2 by (simp add: x y i floor_79 floor_29 indexOf_monday m u)
qed

text \<open>
  C2 as the claim states it fails: a final delta of 79 by 29 pixels is one cell in each
  direction when rounded to the nearest cell, and the handler passes no move at all.
\<close>

theorem dragEndCall_round_counterexample:
  "spec_round (delta_x drag79 / 80) = 1 \<and> spec_round (delta_y drag79 / 30) = 1 \<and>
   dragEndCall ''schedule-1'' drag79 = Some (''schedule-1'', 0, monday, 0) \<and>
   dragEndCall ''schedule-1'' drag79 \<noteq>
     Some (''schedule-1'', 0,
           DAY_LABELS ! nat (indexOf DAY_LABELS monday + spec_round (delta_x drag79 / 80)),
           spec_round (delta_y drag79 / 30))"
proof -
  have x: "delta_x drag79 = 79" and y: "delta_y drag79 = 29"
    by (simp_all add: drag79_def)
  have r: "spec_round (79 / 80) = 1" "spec_round (29 / 30) = 1"
    by (simp_all add: spec_round_def floor_eq_iff)
  have call: "dragEndCall ''schedule-1'' drag79 = Some (''schedule-1'', 0, monday, 0)"
    by (simp add: dragEndCall_def drag79_def Let_def Math_floor_def CellSize_WIDTH_def
        CellSize_HEIGHT_def floor_79 floor_29 indexOf_monday)
      (simp add: DAY_LABELS_def monday_def)
  show ?thesis
    by (simp add: x y r call)
qed

section \<open>The catalog cache\<close>

lemma initCache_sets_cache: "\<exists>c. lectureApiCache (initCache w) = Some c"
  by (simp add: initCache_def split: option.splits)

lemma fetchMajors_miss:
  assumes "lectureApiCache w = Some c" and "c ''schedules-majors'' = None"
  shows "fetchMajors now w =
     (promises w,
      w\<lparr>requests := requests w @ [''/schedules-majors.json''],
        promises := Suc (promises w),
        lectureApiCache :=
          Some (c(''schedules-majors'' \<mapsto> \<lparr>promise = promises w, timestamp = now, data = None\<rparr>))\<rparr>)"
  using assms by (simp add: fetchMajors_def getCache_def Let_def)

lemma fetchMajors_hit:
  assumes "lectureApiCache w = Some c" and "c ''schedules-majors'' = Some entry"
  shows "fetchMajors now w = (promise entry, w)"
  using assms by (simp add: fetchMajors_def getCache_def Let_def)

lemma fetchLiberalArts_miss:
  assumes "lectureApiCache w = Some c" and "c ''schedules-liberal-arts'' = None"
  shows "fetchLiberalArts now w =
     (promises w,
      w\<lparr>requests := requests w @ [''/schedules-liberal-arts.json''],
        promises := Suc (promises w),
        lectureApiCache :=
          Some (c(''schedules-liberal-arts'' \<mapsto>
                    \<lparr>promise = promises w, timestamp = now, data = None\<rparr>))\<rparr>)"
  using assms by (simp add: fetchLiberalArts_def getCache_def Let_def)

lemma fetchLiberalArts_hit:
  assumes "lectureApiCache w = Some c" and "c ''schedules-liberal-arts'' = Some entry"
  shows "fetchLiberalArts now w = (promise entry, w)"
  using assms by (simp add: fetchLiberalArts_def getCache_def Let_def)

text \<open>
  C9. With the global cache in place and no entry yet for a key, two calls of the fetch
  function of that key, one after the other with no fulfilment between them, issue exactly
  one request: the first call issues it and stores the pending promise under the key, the
  second call returns that same promise and changes nothing.
\<close>

theorem fetch_twice_one_request:
  assumes "lectureApiCache w = Some c"
  shows "(c ''schedules-majors'' = None \<longrightarrow>
       (\<exists>p w1 c1 entry.
          fetchMajors t1 w = (p, w1) \<and>
          requests w1 = requests w @ [''/schedules-majors.json''] \<and>
          lectureApiCache w1 = Some c1 \<and> c1 ''schedules-majors'' = Some entry \<and>
          promise entry = p \<and> data entry = None \<and>
          fetchMajors t2 w1 = (p, w1))) \<and>
     (c ''schedules-liberal-arts'' = None \<longrightarrow>
       (\<exists>p w1 c1 entry.
          fetchLiberalArts t1 w = (p, w1) \<and>
          requests w1 = requests w @ [''/schedules-liberal-arts.json''] \<and>
          lectureApiCache w1 = Some c1 \<and> c1 ''schedules-liberal-arts'' = Some entry \<and>
          promise entry = p \<and> data entry = None \<and>
          fetchLiberalArts t2 w1 = (p, w1)))"
proof (intro conjI impI)
  assume miss: "c ''schedules-majors'' = None"
  let ?e = "\<lparr>promise = promises w, timestamp = t1, data = None\<rparr>"
  let ?c1 = "c(''schedules-majors'' \<mapsto> ?e)"
  let ?w1 = "w\<lparr>requests := requests w @ [''/schedules-majors.json''],
        promises := Suc (promises w), lectureApiCache := Some ?c1\<rparr>"
  have 1: "fetchMajors t1 w = (promises w, ?w1)"
    using assms miss by (rule fetchMajors_miss)
  have 2: "fetchMajors t2 ?w1 = (promise ?e, ?w1)"
    using fetchMajors_hit [of ?w1 ?c1 ?e t2] by simp
  show "\<exists>p w1 c1 entry.
          fetchMajors t1 w = (p, w1) \<and>
          requests w1 = requests w @ [''/schedules-majors.json''] \<and>
          lectureApiCache w1 = Some c1 \<and> c1 ''schedules-majors'' = Some entry \<and>
          promise entry = p \<and> data entry = None \<and>
          fetchMajors t2 w1 = (p, w1)"
    using 1 2 by (intro exI [of _ "promises w"] exI [of _ ?w1] exI [of _ ?c1] exI [of _ ?e]) simp
next
  assume miss: "c ''schedules-liberal-arts'' = None"
  let ?e = "\<lparr>promise = promises w, timestamp = t1, data = None\<rparr>"
  let ?c1 = "c(''schedules-liberal-arts'' \<mapsto> ?e)"
  let ?w1 = "w\<lparr>requests := requests w @ [''/schedules-liberal-arts.json''],
        promises := Suc (promises w), lectureApiCache := Some ?c1\<rparr>"
  have 1: "fetchLiberalArts t1 w = (promises w, ?w1)"
    using assms miss by (rule fetchLiberalArts_miss)
  have 2: "fetchLiberalArts t2 ?w1 = (promise ?e, ?w1)"
    using fetchLiberalArts_hit [of ?w1 ?c1 ?e t2] by simp
  show "\<exists>p w1 c1 entry.
          fetchLiberalArts t1 w = (p, w1) \<and>
          requests w1 = requests w @ [''/schedules-liberal-arts.json''] \<and>
          lectureApiCache w1 = Some c1 \<and> c1 ''schedules-liberal-arts'' = Some entry \<and>
          promise entry = p \<and> data entry = None \<and>
          fetchLiberalArts t2 w1 = (p, w1)"
    using 1 2 by (intro exI [of _ "promises w"] exI [of _ ?w1] exI [of _ ?c1] exI [of _ ?e]) simp
qed

theorem fetch_twice_one_request_witness:
  "lectureApiCache world0 = Some Map.empty \<and>
   fst (fetchMajors 5 world0) = 0 \<and>
   requests (snd (fetchMajors 5 world0)) = [''/schedules-majors.json''] \<and>
   fetchMajors 9 (snd (fetchMajors 5 world0)) = (0, snd (fetchMajors 5 world0)) \<and>
   requests (snd (fetchLiberalArts 5 world0)) = [''/schedules-liberal-arts.json''] \<and>
   fetchLiberalArts 9 (snd (fetchLiberalArts 5 world0)) = (0, snd (fetchLiberalArts 5 world0))"
proof -
  have h: "lectureApiCache world0 = Some (Map.empty :: string \<rightharpoonup> unit CacheEntry)"
    by (simp add: world0_def)
  have m: "fetchMajors 5 world0 =
      (0, \<lparr>lectureApiCache = Some [''schedules-majors'' \<mapsto>
              \<lparr>promise = 0, timestamp = 5, data = None\<rparr>],
           requests = [''/schedules-majors.json''], promises = Suc 0\<rparr>)"
    by (simp add: world0_def fetchMajors_def getCache_def Let_def)
  have l: "fetchLiberalArts 5 world0 =
      (0, \<lparr>lectureApiCache = Some [''schedules-liberal-arts'' \<mapsto>
              \<lparr>promise = 0, timestamp = 5, data = None\<rparr>],
           requests = [''/schedules-liberal-arts.json''], promises = Suc 0\<rparr>)"
    by (simp add: world0_def fetchLiberalArts_def getCache_def Let_def)
  from fetch_twice_one_request [OF h, of 5 9]
  show ?thesis
    using h by (simp add: m l)
qed

section \<open>The filter pipeline\<close>

lemma String_includes_empty: "String_includes s []"
  by (cases s) simp_all

lemma toLowerCase_empty: "toLowerCase [] = []"
  by (simp add: toLowerCase_def)

text \<open>
  C8, as the code has it. The pipeline keeps, in catalog order, exactly the lectures that
  pass all six tests together; the credits test passes every lecture when the query's
  credits are absent or 0, and otherwise passes the lectures whose credits string starts
  with the decimal rendering of the query's credits (a prefix match, not equality).
\<close>

theorem filteredLectures_credits_prefix:
  "filteredLectures parseSchedule opts lectures =
     filter (\<lambda>l.
        (String_includes (toLowerCase (title l))
           (toLowerCase (case query opts of None \<Rightarrow> [] | Some s \<Rightarrow> s))
         \<or> String_includes (toLowerCase (id' l))
           (toLowerCase (case query opts of None \<Rightarrow> [] | Some s \<Rightarrow> s))) \<and>
        (grades opts = [] \<or> grade l \<in> set (grades opts)) \<and>
        (majors opts = [] \<or> major l \<in> set (majors opts)) \<and>
        (case credits' opts of
           None \<Rightarrow> True
         | Some c \<Rightarrow> c = 0 \<or> prefix (string_of_nat c) (credits l)) \<and>
        (days opts = [] \<or>
           (schedule l \<noteq> [] \<and> (\<exists>s \<in> set (parseSchedule (schedule l)). day s \<in> set (days opts)))) \<and>
        (times' opts = [] \<or>
           (schedule l \<noteq> [] \<and>
            (\<exists>s \<in> set (parseSchedule (schedule l)). \<exists>time \<in> set (range' s). time \<in> set (times' opts)))))
       lectures"
  unfolding filteredLectures_def Let_def filter_filter startsWith_def
  by (rule filter_cong [OF refl])
    (auto simp: list_ex_iff split: option.splits)

theorem filteredLectures_credits_prefix_witness:
  "filteredLectures parseNothing credits3 [lecture0, lecture10] = [lecture0] \<and>
   filteredLectures parseNothing credits1 [lecture0, lecture10] = [lecture10]"
  using filteredLectures_credits_prefix [of parseNothing credits3 "[lecture0, lecture10]"]
    filteredLectures_credits_prefix [of parseNothing credits1 "[lecture0, lecture10]"]
  by (simp add: credits3_def credits1_def lecture0_def lecture10_def string_of_nat.simps
      String_includes_empty toLowerCase_empty)

text \<open>
  C8 as the claim states it fails: with credits 1 in the query, the lecture whose credits
  are \<open>10\<close> is kept, although its credit value is not 1.
\<close>

theorem filteredLectures_exact_credits_counterexample:
  "credits' credits1 = Some 1 \<and>
   filteredLectures parseNothing credits1 [lecture10] = [lecture10] \<and>
   credits lecture10 \<noteq> string_of_nat 1"
  by (simp add: filteredLectures_def credits1_def lecture10_def startsWith_def
      string_of_nat.simps String_includes_empty toLowerCase_empty)

end
